theory Spec2Isabelle
  imports Main
begin

section \<open>Data model of \<^verbatim>\<open>classifier.py\<close>\<close>

text \<open>
  The file assembles a network from layers of an external tensor runtime
  (\<^verbatim>\<open>torch.nn\<close>). A constructed module is modelled by its configuration: the
  layers it holds, in order, with the sizes they were built with. Channel counts,
  strides and group counts are natural numbers; the two arguments of
  \<^verbatim>\<open>SqueezeExcitationBlock\<close>, which divides one by the other, are integers of either
  sign. Every exception the Python can raise is a value of \<open>error\<close>; a constructor or
  a forward pass returns \<open>error + 'a\<close>.
\<close>

datatype error =
    AttributeError
  | ValueError
  | RuntimeError
  | ZeroDivisionError
  | IndexError

record conv_cfg =
  conv_in :: nat
  conv_out :: nat
  conv_kernel :: nat
  conv_stride :: nat
  conv_padding :: nat
  conv_groups :: nat
  conv_bias :: bool

text \<open>
  The primitive layers the file uses. \<open>Flatten\<close> is the file's own class (lines 7-9);
  the others are layers of the runtime.
\<close>

datatype layer =
    Conv2d conv_cfg
  | BatchNorm2d nat
  | ReLU
  | Linear nat nat
  | Sigmoid
  | AdaptiveAvgPool2d nat nat
  | Flatten

text \<open>\<^verbatim>\<open>nn.Sequential\<close> of primitive layers.\<close>

type_synonym sequential = "layer list"

record SqueezeExcitationBlock =
  reduced_channel_size :: int
  se_seq :: sequential

record BasicBlock =
  basic_in_channels :: nat
  basic_out_channels :: nat
  basic_conv1 :: sequential
  basic_conv2 :: sequential

record BottleneckBlock =
  bneck_in_channels :: nat
  bneck_out_channels :: nat
  bneck_conv1 :: sequential
  bneck_conv2 :: sequential
  bneck_conv3 :: sequential

text \<open>The transform held in the field \<^verbatim>\<open>block\<close> of a residual block.\<close>

datatype transform =
    BasicT BasicBlock
  | BottleneckT BottleneckBlock

text \<open>
  \<^verbatim>\<open>ResidualBlock\<close>, and its subclass \<^verbatim>\<open>ResNeXtBlock\<close>, which adds no field and
  overrides \<^verbatim>\<open>forward\<close>. \<open>res_class\<close> is the class of the object, which selects the
  \<^verbatim>\<open>forward\<close> a call dispatches to. \<open>downsample\<close> is \<open>None\<close> or a
  \<^verbatim>\<open>nn.Sequential\<close>.
\<close>

datatype res_class = ResidualBlock_class | ResNeXtBlock_class

record ResidualBlock =
  res_class :: res_class
  res_in_channels :: nat
  res_out_channels :: nat
  downsample :: "sequential option"
  res_block :: transform

record SE_ResModule =
  se_res_block :: ResidualBlock
  se_block :: SqueezeExcitationBlock

text \<open>What an encoder stack (\<^verbatim>\<open>nn.Sequential\<close> in \<^verbatim>\<open>backends\<close>) can hold.\<close>

datatype module =
    LayerM layer
  | ResidualM ResidualBlock
  | SE_ResM SE_ResModule

record object_classifier =
  encoder :: "module list"
  decoder :: sequential

section \<open>Constructors\<close>

subsection \<open>Layers of the runtime\<close>

text \<open>
  \<^verbatim>\<open>nn.Conv2d(in, out, kernel_size, stride, padding, groups=groups, bias=bias)\<close>.
  The runtime's constructor raises \<^verbatim>\<open>ValueError\<close> when \<open>groups\<close> is not positive or
  does not divide both channel counts; it does not look at the stride.
\<close>

definition Conv2d_init ::
  "nat \<Rightarrow> nat \<Rightarrow> nat \<Rightarrow> nat \<Rightarrow> nat \<Rightarrow> nat \<Rightarrow> bool \<Rightarrow> error + layer" where
  "Conv2d_init cin cout k s p g b =
     (if g = 0 then Inl ValueError
      else if cin mod g \<noteq> 0 then Inl ValueError
      else if cout mod g \<noteq> 0 then Inl ValueError
      else Inr (Conv2d \<lparr>conv_in = cin, conv_out = cout, conv_kernel = k, conv_stride = s,
                        conv_padding = p, conv_groups = g, conv_bias = b\<rparr>))"

text \<open>
  \<^verbatim>\<open>nn.Linear(in_features, out_features)\<close>. The runtime's constructor allocates a
  weight of \<open>out_features\<close> by \<open>in_features\<close> elements, which raises \<^verbatim>\<open>RuntimeError\<close>
  when a size is negative. A size of 0 is accepted: a layer with no input or no output
  features is built, with an empty weight.
\<close>

definition Linear_init :: "int \<Rightarrow> int \<Rightarrow> error + layer" where
  "Linear_init i o_features =
     (if i < 0 \<or> o_features < 0 then Inl RuntimeError
      else Inr (Linear (nat i) (nat o_features)))"

subsection \<open>SqueezeExcitationBlock (lines 11-24)\<close>

text \<open>An optional argument with its default.\<close>

definition or_default :: "'a \<Rightarrow> 'a option \<Rightarrow> 'a" where
  "or_default d v = (case v of None \<Rightarrow> d | Some x \<Rightarrow> x)"

text \<open>
  Python's \<^verbatim>\<open>a // b\<close>: division rounding towards minus infinity, which is \<open>div\<close> on
  \<open>nat\<close> and on \<open>int\<close>.
\<close>

definition floordiv :: "'a::{zero, divide} \<Rightarrow> 'a \<Rightarrow> error + 'a" where
  "floordiv a b = (if b = 0 then Inl ZeroDivisionError else Inr (a div b))"

definition SqueezeExcitationBlock_init ::
  "int \<Rightarrow> int option \<Rightarrow> error + SqueezeExcitationBlock" where
  "SqueezeExcitationBlock_init in_channels reduction_ratio =
     (case floordiv in_channels (or_default 16 reduction_ratio) of
        Inl e \<Rightarrow> Inl e
      | Inr reduced \<Rightarrow>
          (case Linear_init in_channels reduced of
             Inl e \<Rightarrow> Inl e
           | Inr fc1 \<Rightarrow>
               (case Linear_init reduced in_channels of
                  Inl e \<Rightarrow> Inl e
                | Inr fc2 \<Rightarrow>
                    Inr \<lparr>reduced_channel_size = reduced,
                         se_seq = [AdaptiveAvgPool2d 1 1, Flatten, fc1, ReLU, fc2, Sigmoid]\<rparr>)))"

subsection \<open>BasicBlock (lines 32-47)\<close>

definition BasicBlock_init ::
  "nat \<Rightarrow> nat \<Rightarrow> nat option \<Rightarrow> nat option \<Rightarrow> error + BasicBlock" where
  "BasicBlock_init in_channels out_channels stride groups =
     (case Conv2d_init in_channels out_channels 3 (or_default 1 stride) 1 (or_default 1 groups) False of
        Inl e \<Rightarrow> Inl e
      | Inr c1 \<Rightarrow>
          (case Conv2d_init out_channels out_channels 3 1 1 (or_default 1 groups) False of
             Inl e \<Rightarrow> Inl e
           | Inr c2 \<Rightarrow>
               Inr \<lparr>basic_in_channels = in_channels, basic_out_channels = out_channels,
                    basic_conv1 = [c1, BatchNorm2d out_channels, ReLU],
                    basic_conv2 = [c2, BatchNorm2d out_channels]\<rparr>))"

subsection \<open>BottleneckBlock (lines 54-75)\<close>

definition BottleneckBlock_init ::
  "nat \<Rightarrow> nat \<Rightarrow> nat option \<Rightarrow> nat option \<Rightarrow> nat option \<Rightarrow> error + BottleneckBlock" where
  "BottleneckBlock_init in_channels out_channels stride groups mid_channels =
     (let mid = (case mid_channels of None \<Rightarrow> in_channels div 2 | Some m \<Rightarrow> m) in
      case Conv2d_init in_channels mid 1 1 0 1 False of
        Inl e \<Rightarrow> Inl e
      | Inr c1 \<Rightarrow>
          (case Conv2d_init mid mid 3 (or_default 1 stride) 1 (or_default 1 groups) False of
             Inl e \<Rightarrow> Inl e
           | Inr c2 \<Rightarrow>
               (case Conv2d_init mid out_channels 1 1 0 1 False of
                  Inl e \<Rightarrow> Inl e
                | Inr c3 \<Rightarrow>
                    Inr \<lparr>bneck_in_channels = in_channels, bneck_out_channels = out_channels,
                         bneck_conv1 = [c1, BatchNorm2d out_channels, ReLU],
                         bneck_conv2 = [c2, BatchNorm2d mid, ReLU],
                         bneck_conv3 = [c3, BatchNorm2d out_channels]\<rparr>)))"

subsection \<open>ResidualBlock (lines 83-93)\<close>

definition ResidualBlock_init ::
  "nat \<Rightarrow> nat \<Rightarrow> transform option \<Rightarrow> error + ResidualBlock" where
  "ResidualBlock_init in_channels out_channels block =
     (let stride = (if in_channels \<noteq> out_channels then 2 else 1 :: nat) in
      case (if stride \<noteq> 1 then
              (case Conv2d_init in_channels out_channels 1 stride 0 1 False of
                 Inl e \<Rightarrow> Inl e
               | Inr c \<Rightarrow> Inr (Some [c, BatchNorm2d out_channels]))
            else Inr None) of
        Inl e \<Rightarrow> Inl e
      | Inr ds \<Rightarrow>
          (case (case block of
                   None \<Rightarrow>
                     (case BasicBlock_init in_channels out_channels (Some stride) None of
                        Inl e \<Rightarrow> Inl e
                      | Inr b \<Rightarrow> Inr (BasicT b))
                 | Some b \<Rightarrow> Inr b) of
             Inl e \<Rightarrow> Inl e
           | Inr t \<Rightarrow>
               Inr \<lparr>res_class = ResidualBlock_class,
                    res_in_channels = in_channels, res_out_channels = out_channels,
                    downsample = ds, res_block = t\<rparr>))"

subsection \<open>ResNeXtBlock (lines 104-114)\<close>

text \<open>
  The arguments of the call to the superclass are evaluated first: the bottleneck is
  built, with \<^verbatim>\<open>stride=in_channels // out_channels\<close>, before \<^verbatim>\<open>ResidualBlock.__init__\<close>
  runs.
\<close>

definition ResNeXtBlock_init :: "nat \<Rightarrow> nat \<Rightarrow> nat option \<Rightarrow> error + ResidualBlock" where
  "ResNeXtBlock_init in_channels out_channels cardinality =
     (case floordiv in_channels out_channels of
        Inl e \<Rightarrow> Inl e
      | Inr stride \<Rightarrow>
          (case BottleneckBlock_init in_channels out_channels (Some stride)
                  (Some (or_default 32 cardinality)) (Some (in_channels div 2)) of
             Inl e \<Rightarrow> Inl e
           | Inr b \<Rightarrow>
               (case ResidualBlock_init in_channels out_channels (Some (BottleneckT b)) of
                  Inl e \<Rightarrow> Inl e
                | Inr rb \<Rightarrow> Inr (rb\<lparr>res_class := ResNeXtBlock_class\<rparr>))))"

subsection \<open>SE_ResModule (lines 124-128)\<close>

definition SE_ResModule_init :: "ResidualBlock \<Rightarrow> int option \<Rightarrow> error + SE_ResModule" where
  "SE_ResModule_init block reduction_ratio =
     (case SqueezeExcitationBlock_init (int (res_out_channels block)) reduction_ratio of
        Inl e \<Rightarrow> Inl e
      | Inr se \<Rightarrow> Inr \<lparr>se_res_block = block, se_block = se\<rparr>)"

section \<open>Forward passes\<close>

subsection \<open>The tensor runtime\<close>

text \<open>
  Tensors and the kernels on them belong to the runtime, which the file only calls.
  The forward passes are therefore written over any tensor type \<open>'t\<close> and a record of
  the operations the file uses: the forward pass of each kind of primitive layer
  (learned parameters are the runtime's), the in-place addition \<^verbatim>\<open>out += residual\<close>,
  the product \<^verbatim>\<open>res_out * se_out\<close>, \<^verbatim>\<open>F.relu\<close>, \<^verbatim>\<open>X.size()\<close> and \<^verbatim>\<open>X.view(...)\<close>.
\<close>

record 't runtime =
  rt_conv2d :: "conv_cfg \<Rightarrow> 't \<Rightarrow> error + 't"
  rt_batch_norm :: "nat \<Rightarrow> 't \<Rightarrow> error + 't"
  rt_linear :: "nat \<Rightarrow> nat \<Rightarrow> 't \<Rightarrow> error + 't"
  rt_adaptive_avg_pool2d :: "nat \<Rightarrow> nat \<Rightarrow> 't \<Rightarrow> error + 't"
  rt_relu :: "'t \<Rightarrow> 't"
  rt_sigmoid :: "'t \<Rightarrow> 't"
  rt_iadd :: "'t \<Rightarrow> 't \<Rightarrow> error + 't"
  rt_mul :: "'t \<Rightarrow> 't \<Rightarrow> error + 't"
  rt_size :: "'t \<Rightarrow> nat list"
  rt_view :: "'t \<Rightarrow> int list \<Rightarrow> error + 't"

subsection \<open>Flatten and nn.Sequential\<close>

text \<open>\<^verbatim>\<open>Flatten.forward\<close> (lines 8-9): \<^verbatim>\<open>input.view(input.size(0), -1)\<close>.\<close>

definition Flatten_forward :: "('t, 'z) runtime_scheme \<Rightarrow> 't \<Rightarrow> error + 't" where
  "Flatten_forward rt input =
     (case rt_size rt input of
        [] \<Rightarrow> Inl IndexError
      | n # _ \<Rightarrow> rt_view rt input [int n, - 1])"

fun layer_forward :: "('t, 'z) runtime_scheme \<Rightarrow> layer \<Rightarrow> 't \<Rightarrow> error + 't" where
  "layer_forward rt (Conv2d c) x = rt_conv2d rt c x"
| "layer_forward rt (BatchNorm2d n) x = rt_batch_norm rt n x"
| "layer_forward rt ReLU x = Inr (rt_relu rt x)"
| "layer_forward rt (Linear i j) x = rt_linear rt i j x"
| "layer_forward rt Sigmoid x = Inr (rt_sigmoid rt x)"
| "layer_forward rt (AdaptiveAvgPool2d h w) x = rt_adaptive_avg_pool2d rt h w x"
| "layer_forward rt Flatten x = Flatten_forward rt x"

text \<open>\<^verbatim>\<open>nn.Sequential\<close> feeds each layer the output of the one before.\<close>

fun Sequential_forward :: "('t, 'z) runtime_scheme \<Rightarrow> sequential \<Rightarrow> 't \<Rightarrow> error + 't" where
  "Sequential_forward rt [] x = Inr x"
| "Sequential_forward rt (l # ls) x =
     (case layer_forward rt l x of
        Inl e \<Rightarrow> Inl e
      | Inr y \<Rightarrow> Sequential_forward rt ls y)"

subsection \<open>SqueezeExcitationBlock.forward (lines 26-30)\<close>

definition SqueezeExcitationBlock_forward ::
  "('t, 'z) runtime_scheme \<Rightarrow> SqueezeExcitationBlock \<Rightarrow> 't \<Rightarrow> error + 't" where
  "SqueezeExcitationBlock_forward rt se X =
     (case rt_size rt X of
        [batch_size, num_channels, _, _] \<Rightarrow>
          (case Sequential_forward rt (se_seq se) X of
             Inl e \<Rightarrow> Inl e
           | Inr Y \<Rightarrow> rt_view rt Y [int batch_size, int num_channels, 1, 1])
      | _ \<Rightarrow> Inl ValueError)"

subsection \<open>BasicBlock.forward (lines 48-52) and BottleneckBlock.forward (lines 77-81)\<close>

definition BasicBlock_forward :: "('t, 'z) runtime_scheme \<Rightarrow> BasicBlock \<Rightarrow> 't \<Rightarrow> error + 't" where
  "BasicBlock_forward rt b X =
     (case Sequential_forward rt (basic_conv1 b) X of
        Inl e \<Rightarrow> Inl e
      | Inr X1 \<Rightarrow> Sequential_forward rt (basic_conv2 b) X1)"

definition BottleneckBlock_forward ::
  "('t, 'z) runtime_scheme \<Rightarrow> BottleneckBlock \<Rightarrow> 't \<Rightarrow> error + 't" where
  "BottleneckBlock_forward rt b X =
     (case Sequential_forward rt (bneck_conv1 b) X of
        Inl e \<Rightarrow> Inl e
      | Inr X1 \<Rightarrow>
          (case Sequential_forward rt (bneck_conv2 b) X1 of
             Inl e \<Rightarrow> Inl e
           | Inr X2 \<Rightarrow> Sequential_forward rt (bneck_conv3 b) X2))"

text \<open>\<^verbatim>\<open>self.block.forward(x)\<close> inside a residual block: the transform's forward.\<close>

fun transform_forward :: "('t, 'z) runtime_scheme \<Rightarrow> transform \<Rightarrow> 't \<Rightarrow> error + 't" where
  "transform_forward rt (BasicT b) x = BasicBlock_forward rt b x"
| "transform_forward rt (BottleneckT b) x = BottleneckBlock_forward rt b x"

subsection \<open>ResidualBlock.forward (lines 95-102) and ResNeXtBlock.forward (lines 115-122)\<close>

text \<open>
  \<^verbatim>\<open>if self.downsample:\<close> tests the truth value of the field: \<^verbatim>\<open>None\<close> is false, and a
  \<^verbatim>\<open>nn.Sequential\<close> (which defines \<^verbatim>\<open>__len__\<close>) is true when it holds a layer.
\<close>

definition truthy :: "sequential option \<Rightarrow> bool" where
  "truthy d = (case d of None \<Rightarrow> False | Some ds \<Rightarrow> ds \<noteq> [])"

definition ResidualBlock_forward ::
  "('t, 'z) runtime_scheme \<Rightarrow> ResidualBlock \<Rightarrow> 't \<Rightarrow> error + 't" where
  "ResidualBlock_forward rt self x =
     (let residual = x in
      case transform_forward rt (res_block self) x of
        Inl e \<Rightarrow> Inl e
      | Inr out \<Rightarrow>
          (case (if truthy (downsample self)
                 then (case downsample self of
                         None \<Rightarrow> Inr residual
                       | Some ds \<Rightarrow> Sequential_forward rt ds residual)
                 else Inr residual) of
             Inl e \<Rightarrow> Inl e
           | Inr residual' \<Rightarrow>
               (case rt_iadd rt out residual' of
                  Inl e \<Rightarrow> Inl e
                | Inr out' \<Rightarrow> Inr (rt_relu rt out'))))"

definition ResNeXtBlock_forward ::
  "('t, 'z) runtime_scheme \<Rightarrow> ResidualBlock \<Rightarrow> 't \<Rightarrow> error + 't" where
  "ResNeXtBlock_forward rt self x =
     (let residual = x in
      case transform_forward rt (res_block self) x of
        Inl e \<Rightarrow> Inl e
      | Inr out \<Rightarrow>
          (case (if truthy (downsample self)
                 then (case downsample self of
                         None \<Rightarrow> Inr residual
                       | Some ds \<Rightarrow> Sequential_forward rt ds residual)
                 else Inr residual) of
             Inl e \<Rightarrow> Inl e
           | Inr residual' \<Rightarrow>
               (case rt_iadd rt out residual' of
                  Inl e \<Rightarrow> Inl e
                | Inr out' \<Rightarrow> Inr (rt_relu rt out'))))"

text \<open>A call \<^verbatim>\<open>b.forward(x)\<close> on a residual block \<open>b\<close> runs the method of its class.\<close>

definition block_forward :: "('t, 'z) runtime_scheme \<Rightarrow> ResidualBlock \<Rightarrow> 't \<Rightarrow> error + 't" where
  "block_forward rt b x =
     (case res_class b of
        ResidualBlock_class \<Rightarrow> ResidualBlock_forward rt b x
      | ResNeXtBlock_class \<Rightarrow> ResNeXtBlock_forward rt b x)"

subsection \<open>SE_ResModule.forward (lines 130-143)\<close>

text \<open>
  \<^verbatim>\<open>self.block\<close> is the wrapped residual block, so \<^verbatim>\<open>self.block.forward(X)\<close> is that
  block's whole forward pass.
\<close>

definition SE_ResModule_forward ::
  "('t, 'z) runtime_scheme \<Rightarrow> SE_ResModule \<Rightarrow> 't \<Rightarrow> error + 't" where
  "SE_ResModule_forward rt self X =
     (let residual = X in
      case block_forward rt (se_res_block self) X of
        Inl e \<Rightarrow> Inl e
      | Inr res_out \<Rightarrow>
          (case SqueezeExcitationBlock_forward rt (se_block self) res_out of
             Inl e \<Rightarrow> Inl e
           | Inr se_out \<Rightarrow>
               (case rt_mul rt res_out se_out of
                  Inl e \<Rightarrow> Inl e
                | Inr out \<Rightarrow>
                    (case (case downsample (se_res_block self) of
                             None \<Rightarrow> Inr residual
                           | Some ds \<Rightarrow> Sequential_forward rt ds X) of
                       Inl e \<Rightarrow> Inl e
                     | Inr residual' \<Rightarrow>
                         (case rt_iadd rt out residual' of
                            Inl e \<Rightarrow> Inl e
                          | Inr out' \<Rightarrow> Inr (rt_relu rt out'))))))"

subsection \<open>Encoder stacks and object_classifier (lines 206-213)\<close>

fun module_forward :: "('t, 'z) runtime_scheme \<Rightarrow> module \<Rightarrow> 't \<Rightarrow> error + 't" where
  "module_forward rt (LayerM l) x = layer_forward rt l x"
| "module_forward rt (ResidualM b) x = block_forward rt b x"
| "module_forward rt (SE_ResM m) x = SE_ResModule_forward rt m x"

fun stack_forward :: "('t, 'z) runtime_scheme \<Rightarrow> module list \<Rightarrow> 't \<Rightarrow> error + 't" where
  "stack_forward rt [] x = Inr x"
| "stack_forward rt (m # ms) x =
     (case module_forward rt m x of
        Inl e \<Rightarrow> Inl e
      | Inr y \<Rightarrow> stack_forward rt ms y)"

definition encode :: "('t, 'z) runtime_scheme \<Rightarrow> object_classifier \<Rightarrow> 't \<Rightarrow> error + 't" where
  "encode rt self X = stack_forward rt (encoder self) X"

definition decode :: "('t, 'z) runtime_scheme \<Rightarrow> object_classifier \<Rightarrow> 't \<Rightarrow> error + 't" where
  "decode rt self X = Sequential_forward rt (decoder self) X"

definition forward :: "('t, 'z) runtime_scheme \<Rightarrow> object_classifier \<Rightarrow> 't \<Rightarrow> error + 't" where
  "forward rt self X =
     (case encode rt self X of
        Inl e \<Rightarrow> Inl e
      | Inr Y \<Rightarrow> decode rt self Y)"

section \<open>The runtime on shapes\<close>

text \<open>
  What the runtime's operations do to the shape of a tensor, and when they raise.
  A shape is the list of dimension sizes, \<^verbatim>\<open>(B, C, H, W)\<close> for a batch of feature
  maps.
\<close>

type_synonym shape = "nat list"

text \<open>Output height (or width) of a convolution with dilation 1.\<close>

definition conv_out_size :: "nat \<Rightarrow> nat \<Rightarrow> nat \<Rightarrow> nat \<Rightarrow> nat" where
  "conv_out_size n k s p = (n + 2 * p - k) div s + 1"

text \<open>
  The checks of a convolution on \<open>ch\<close> channels of size \<open>h\<close> by \<open>w\<close>: a positive
  stride, at least one output channel per group (so a layer built with no output
  channel raises), as many channels as the layer was built for, and a padded input no
  smaller than the kernel.
\<close>

definition conv_hw :: "conv_cfg \<Rightarrow> nat \<Rightarrow> nat \<Rightarrow> nat \<Rightarrow> error + nat \<times> nat" where
  "conv_hw c ch h w =
     (if conv_stride c = 0 then Inl RuntimeError
      else if conv_out c < conv_groups c then Inl RuntimeError
      else if ch \<noteq> conv_in c then Inl RuntimeError
      else if h + 2 * conv_padding c < conv_kernel c \<or> w + 2 * conv_padding c < conv_kernel c
        then Inl RuntimeError
      else Inr (conv_out_size h (conv_kernel c) (conv_stride c) (conv_padding c),
                conv_out_size w (conv_kernel c) (conv_stride c) (conv_padding c)))"

definition shape_conv2d :: "conv_cfg \<Rightarrow> shape \<Rightarrow> error + shape" where
  "shape_conv2d c sh =
     (case sh of
        [b, ch, h, w] \<Rightarrow>
          (case conv_hw c ch h w of
             Inl e \<Rightarrow> Inl e
           | Inr hw \<Rightarrow> Inr [b, conv_out c, fst hw, snd hw])
      | [ch, h, w] \<Rightarrow>
          (case conv_hw c ch h w of
             Inl e \<Rightarrow> Inl e
           | Inr hw \<Rightarrow> Inr [conv_out c, fst hw, snd hw])
      | _ \<Rightarrow> Inl RuntimeError)"

text \<open>
  \<^verbatim>\<open>nn.BatchNorm2d(n)\<close> wants a 4-D input (\<^verbatim>\<open>ValueError\<close> otherwise), in training mode
  more than one value per channel (\<^verbatim>\<open>ValueError\<close>), and \<open>n\<close> channels
  (\<^verbatim>\<open>RuntimeError\<close>). A module is in training mode from its construction on. An input
  with no element is returned before the channels are compared, scaled by the first
  weight, which a layer over 0 features does not have (\<^verbatim>\<open>IndexError\<close>).
\<close>

definition shape_batch_norm :: "bool \<Rightarrow> nat \<Rightarrow> shape \<Rightarrow> error + shape" where
  "shape_batch_norm training n sh =
     (case sh of
        [b, ch, h, w] \<Rightarrow>
          (if training \<and> b * h * w = 1 then Inl ValueError
           else if b * ch * h * w = 0 then (if n = 0 then Inl IndexError else Inr sh)
           else if ch \<noteq> n then Inl RuntimeError
           else Inr sh)
      | _ \<Rightarrow> Inl ValueError)"

text \<open>\<^verbatim>\<open>nn.Linear(i, j)\<close> maps the last dimension, which must be \<open>i\<close>, to \<open>j\<close>.\<close>

definition shape_linear :: "nat \<Rightarrow> nat \<Rightarrow> shape \<Rightarrow> error + shape" where
  "shape_linear i j sh =
     (case rev sh of
        [] \<Rightarrow> Inl RuntimeError
      | d # r \<Rightarrow> if d = i then Inr (rev r @ [j]) else Inl RuntimeError)"

text \<open>
  \<^verbatim>\<open>nn.AdaptiveAvgPool2d((oh, ow))\<close> wants an input of at least three dimensions
  (\<^verbatim>\<open>ValueError\<close> otherwise). With the output size \<open>(1, 1)\<close>, the only one the file
  uses, it is the mean over the last two dimensions, kept as dimensions of size 1; an
  empty spatial dimension is no error (the mean of nothing is not a number). With any
  other output size it averages each channel of a 3-D or 4-D input down to \<open>oh\<close> by
  \<open>ow\<close>, and the spatial dimensions must not be empty.
\<close>

definition shape_adaptive_avg_pool2d :: "nat \<Rightarrow> nat \<Rightarrow> shape \<Rightarrow> error + shape" where
  "shape_adaptive_avg_pool2d oh ow sh =
     (if length sh \<le> 2 then Inl ValueError
      else if oh = 1 \<and> ow = 1 then Inr (take (length sh - 2) sh @ [1, 1])
      else
        (case sh of
           [b, ch, h, w] \<Rightarrow> if h = 0 \<or> w = 0 then Inl RuntimeError else Inr [b, ch, oh, ow]
         | [ch, h, w] \<Rightarrow> if h = 0 \<or> w = 0 then Inl RuntimeError else Inr [ch, oh, ow]
         | _ \<Rightarrow> Inl RuntimeError))"

text \<open>
  Broadcasting, on shapes written last dimension first: two sizes agree when they are
  equal or one of them is 1, and the shorter shape is padded.
\<close>

fun broadcast_rev :: "nat list \<Rightarrow> nat list \<Rightarrow> error + nat list" where
  "broadcast_rev [] ys = Inr ys"
| "broadcast_rev (x # xs) [] = Inr (x # xs)"
| "broadcast_rev (x # xs) (y # ys) =
     (if x = y \<or> y = 1 \<or> x = 1 then
        (case broadcast_rev xs ys of
           Inl e \<Rightarrow> Inl e
         | Inr r \<Rightarrow> Inr ((if x = 1 then y else x) # r))
      else Inl RuntimeError)"

definition shape_mul :: "shape \<Rightarrow> shape \<Rightarrow> error + shape" where
  "shape_mul a b =
     (case broadcast_rev (rev a) (rev b) of
        Inl e \<Rightarrow> Inl e
      | Inr r \<Rightarrow> Inr (rev r))"

text \<open>
  The in-place \<^verbatim>\<open>a += b\<close> keeps the shape of \<open>a\<close>: \<open>b\<close> must broadcast to it.
\<close>

definition shape_iadd :: "shape \<Rightarrow> shape \<Rightarrow> error + shape" where
  "shape_iadd a b =
     (case shape_mul a b of
        Inl e \<Rightarrow> Inl e
      | Inr r \<Rightarrow> if r = a then Inr a else Inl RuntimeError)"

text \<open>
  \<^verbatim>\<open>view\<close> with the sizes \<open>args\<close>, of which at most one may be \<open>-1\<close>: that one is
  inferred from the number of elements, which the other sizes must divide and which
  is ambiguous when their product is 0. Without \<open>-1\<close> the sizes must multiply to the
  number of elements.
\<close>

definition shape_view :: "shape \<Rightarrow> int list \<Rightarrow> error + shape" where
  "shape_view sh args =
     (let numel = prod_list sh;
          known = prod_list (map nat (filter (\<lambda>a. a \<noteq> - 1) args));
          inferred = length (filter (\<lambda>a. a = - 1) args)
      in if list_ex (\<lambda>a. a < - 1) args then Inl RuntimeError
         else if inferred = 0 then
           (if known = numel then Inr (map nat args) else Inl RuntimeError)
         else if inferred = 1 then
           (if known = 0 then Inl RuntimeError
            else if numel mod known \<noteq> 0 then Inl RuntimeError
            else Inr (map (\<lambda>a. if a = - 1 then numel div known else nat a) args))
         else Inl RuntimeError)"

definition shape_rt :: "bool \<Rightarrow> shape runtime" where
  "shape_rt training =
     \<lparr>rt_conv2d = shape_conv2d,
      rt_batch_norm = shape_batch_norm training,
      rt_linear = shape_linear,
      rt_adaptive_avg_pool2d = shape_adaptive_avg_pool2d,
      rt_relu = (\<lambda>sh. sh),
      rt_sigmoid = (\<lambda>sh. sh),
      rt_iadd = shape_iadd,
      rt_mul = shape_mul,
      rt_size = (\<lambda>sh. sh),
      rt_view = shape_view\<rparr>"

section \<open>The runtime on traces\<close>

text \<open>
  A trace is the expression a forward pass builds over its input: which operation was
  applied to which operands. The traced runtime carries the shape along, so that it
  raises where the runtime on shapes does.
\<close>

datatype expr =
    Input
  | Conv2dE conv_cfg expr
  | BatchNormE nat expr
  | LinearE nat nat expr
  | AvgPoolE nat nat expr
  | ReluE expr
  | SigmoidE expr
  | AddE expr expr
  | MulE expr expr
  | ViewE expr "int list"

definition lift1 ::
  "(shape \<Rightarrow> error + shape) \<Rightarrow> (expr \<Rightarrow> expr) \<Rightarrow> shape \<times> expr \<Rightarrow> error + shape \<times> expr" where
  "lift1 f g t =
     (case f (fst t) of
        Inl e \<Rightarrow> Inl e
      | Inr sh \<Rightarrow> Inr (sh, g (snd t)))"

definition lift2 ::
  "(shape \<Rightarrow> shape \<Rightarrow> error + shape) \<Rightarrow> (expr \<Rightarrow> expr \<Rightarrow> expr) \<Rightarrow>
   shape \<times> expr \<Rightarrow> shape \<times> expr \<Rightarrow> error + shape \<times> expr" where
  "lift2 f g a b =
     (case f (fst a) (fst b) of
        Inl e \<Rightarrow> Inl e
      | Inr sh \<Rightarrow> Inr (sh, g (snd a) (snd b)))"

definition traced_rt :: "bool \<Rightarrow> (shape \<times> expr) runtime" where
  "traced_rt training =
     \<lparr>rt_conv2d = (\<lambda>c. lift1 (shape_conv2d c) (Conv2dE c)),
      rt_batch_norm = (\<lambda>n. lift1 (shape_batch_norm training n) (BatchNormE n)),
      rt_linear = (\<lambda>i j. lift1 (shape_linear i j) (LinearE i j)),
      rt_adaptive_avg_pool2d = (\<lambda>h w. lift1 (shape_adaptive_avg_pool2d h w) (AvgPoolE h w)),
      rt_relu = (\<lambda>t. (fst t, ReluE (snd t))),
      rt_sigmoid = (\<lambda>t. (fst t, SigmoidE (snd t))),
      rt_iadd = lift2 shape_iadd AddE,
      rt_mul = lift2 shape_mul MulE,
      rt_size = fst,
      rt_view = (\<lambda>t args. lift1 (\<lambda>sh. shape_view sh args) (\<lambda>e. ViewE e args) t)\<rparr>"

section \<open>backends (lines 145-169) and the construction of object_classifier (lines 172-203)\<close>

text \<open>
  The arguments of \<^verbatim>\<open>nn.Sequential(...)\<close> are built left to right; the first one that
  raises ends the construction.
\<close>

fun sequence :: "(error + 'a) list \<Rightarrow> error + 'a list" where
  "sequence [] = Inr []"
| "sequence (x # xs) =
     (case x of
        Inl e \<Rightarrow> Inl e
      | Inr v \<Rightarrow>
          (case sequence xs of
             Inl e \<Rightarrow> Inl e
           | Inr vs \<Rightarrow> Inr (v # vs)))"

text \<open>\<^verbatim>\<open>nn.Conv2d(3, 3, (1, 1))\<close>, the first layer of every stack.\<close>

definition conv_stem :: "error + module" where
  "conv_stem =
     (case Conv2d_init 3 3 1 1 0 1 True of
        Inl e \<Rightarrow> Inl e
      | Inr l \<Rightarrow> Inr (LayerM l))"

text \<open>\<^verbatim>\<open>ResidualBlock(cin, cout)\<close> as an element of a stack.\<close>

definition residual_stage :: "nat \<Rightarrow> nat \<Rightarrow> error + module" where
  "residual_stage cin cout =
     (case ResidualBlock_init cin cout None of
        Inl e \<Rightarrow> Inl e
      | Inr b \<Rightarrow> Inr (ResidualM b))"

text \<open>\<^verbatim>\<open>SE_ResModule(b)\<close> as an element of a stack, \<open>b\<close> being built first.\<close>

definition se_stage :: "error + ResidualBlock \<Rightarrow> error + module" where
  "se_stage b =
     (case b of
        Inl e \<Rightarrow> Inl e
      | Inr blk \<Rightarrow>
          (case SE_ResModule_init blk None of
             Inl e \<Rightarrow> Inl e
           | Inr m \<Rightarrow> Inr (SE_ResM m)))"

definition backends_resnet :: "error + module list" where
  "backends_resnet =
     sequence [conv_stem,
               residual_stage 3 64,
               residual_stage 64 128,
               residual_stage 128 256,
               residual_stage 256 256,
               residual_stage 256 512]"

definition backends_se_resnet :: "error + module list" where
  "backends_se_resnet =
     sequence [conv_stem,
               se_stage (ResidualBlock_init 3 64 None),
               se_stage (ResidualBlock_init 64 128 None),
               se_stage (ResidualBlock_init 128 256 None),
               se_stage (ResidualBlock_init 256 256 None),
               se_stage (ResidualBlock_init 256 512 None)]"

definition backends_se_resneXt :: "error + module list" where
  "backends_se_resneXt =
     sequence [conv_stem,
               se_stage (ResNeXtBlock_init 3 64 (Some 1)),
               se_stage (ResNeXtBlock_init 64 128 None),
               se_stage (ResNeXtBlock_init 128 256 None),
               se_stage (ResNeXtBlock_init 256 256 None),
               se_stage (ResNeXtBlock_init 256 512 None)]"

text \<open>
  The class \<^verbatim>\<open>backends\<close>: its body runs once, when the file is loaded, and leaves the
  three stacks as the attributes of the class, under these names.
\<close>

definition backends :: "error + (string \<times> module list) list" where
  "backends =
     (case backends_resnet of
        Inl e \<Rightarrow> Inl e
      | Inr r \<Rightarrow>
          (case backends_se_resnet of
             Inl e \<Rightarrow> Inl e
           | Inr s \<Rightarrow>
               (case backends_se_resneXt of
                  Inl e \<Rightarrow> Inl e
                | Inr x \<Rightarrow> Inr [(''resnet'', r), (''se_resnet'', s), (''se_resneXt'', x)])))"

text \<open>Reading an attribute by name raises \<^verbatim>\<open>AttributeError\<close> when there is none.\<close>

definition getattr :: "(string \<times> 'a) list \<Rightarrow> string \<Rightarrow> error + 'a" where
  "getattr attrs name =
     (case map_of attrs name of
        None \<Rightarrow> Inl AttributeError
      | Some v \<Rightarrow> Inr v)"

text \<open>The decoder of lines 176-189.\<close>

definition decoder_init :: "error + sequential" where
  "decoder_init =
     sequence [Inr (AdaptiveAvgPool2d 1 1),
               Inr Flatten,
               Linear_init 512 256, Inr ReLU,
               Linear_init 256 128, Inr ReLU,
               Linear_init 128 64, Inr ReLU,
               Linear_init 64 32, Inr ReLU,
               Linear_init 32 1,
               Inr Sigmoid]"

text \<open>
  \<^verbatim>\<open>object_classifier.__init__\<close>. The weights are the runtime's, so the two
  initialisation loops (lines 197-203) leave the configuration as it is. Reading the
  decoder's weights from a file is the runtime's as well: \<open>load\<close> says, for a path,
  whether \<^verbatim>\<open>self.decoder.load_state_dict(torch.load(path))\<close> raises.
\<close>

definition object_classifier_init ::
  "(string \<Rightarrow> error option) \<Rightarrow> module list option \<Rightarrow> string option \<Rightarrow> error + object_classifier" where
  "object_classifier_init load encoder_arg decoderFile =
     (case backends of
        Inl e \<Rightarrow> Inl e
      | Inr attrs \<Rightarrow>
          (case (case encoder_arg of
                   Some enc \<Rightarrow> Inr enc
                 | None \<Rightarrow> getattr attrs ''encoder_se_resnet'') of
             Inl e \<Rightarrow> Inl e
           | Inr enc \<Rightarrow>
               (case decoder_init of
                  Inl e \<Rightarrow> Inl e
                | Inr dec \<Rightarrow>
                    (case decoderFile of
                       None \<Rightarrow> Inr \<lparr>encoder = enc, decoder = dec\<rparr>
                     | Some path \<Rightarrow>
                         (case load path of
                            Some e \<Rightarrow> Inl e
                          | None \<Rightarrow> Inr \<lparr>encoder = enc, decoder = dec\<rparr>)))))"

text \<open>\<^verbatim>\<open>backends.se_resnet(x)\<close>: the stack, once built, applied to \<open>x\<close>.\<close>

definition se_resnet_forward :: "('t, 'z) runtime_scheme \<Rightarrow> 't \<Rightarrow> error + 't" where
  "se_resnet_forward rt x =
     (case backends_se_resnet of
        Inl e \<Rightarrow> Inl e
      | Inr stack \<Rightarrow> stack_forward rt stack x)"

section \<open>The specification's reading of SE_ResModule.forward\<close>

text \<open>
  Section 4.6 of the specification, in its own words: the gate is computed from the
  output of the wrapped block's transform and multiplied onto it, then the shortcut
  (the wrapped block's downsample when it has one, the input otherwise) is added once
  and the sum goes through ReLU. This is the reference that \<open>SE_ResModule_forward\<close>,
  which follows the source, is compared with.
\<close>

definition SE_ResModule_forward_spec ::
  "('t, 'z) runtime_scheme \<Rightarrow> SE_ResModule \<Rightarrow> 't \<Rightarrow> error + 't" where
  "SE_ResModule_forward_spec rt self X =
     (case transform_forward rt (res_block (se_res_block self)) X of
        Inl e \<Rightarrow> Inl e
      | Inr res_out \<Rightarrow>
          (case SqueezeExcitationBlock_forward rt (se_block self) res_out of
             Inl e \<Rightarrow> Inl e
           | Inr gate \<Rightarrow>
               (case rt_mul rt res_out gate of
                  Inl e \<Rightarrow> Inl e
                | Inr gated \<Rightarrow>
                    (case (case downsample (se_res_block self) of
                             None \<Rightarrow> Inr X
                           | Some ds \<Rightarrow> Sequential_forward rt ds X) of
                       Inl e \<Rightarrow> Inl e
                     | Inr residual \<Rightarrow>
                         (case rt_iadd rt gated residual of
                            Inl e \<Rightarrow> Inl e
                          | Inr s \<Rightarrow> Inr (rt_relu rt s))))))"

text \<open>
  \<^verbatim>\<open>SE_ResModule(ResidualBlock(16, 16))\<close>, and the names of the traces it gives rise
  to: the 3x3 convolution of its basic block, the trace of the transform on the
  input, and the trace of the squeeze-excitation gate over a trace \<open>e\<close>.
\<close>

definition se_res16 :: "error + SE_ResModule" where
  "se_res16 =
     (case ResidualBlock_init 16 16 None of
        Inl e \<Rightarrow> Inl e
      | Inr b \<Rightarrow> SE_ResModule_init b None)"

definition conv16 :: conv_cfg where
  "conv16 = \<lparr>conv_in = 16, conv_out = 16, conv_kernel = 3, conv_stride = 1,
             conv_padding = 1, conv_groups = 1, conv_bias = False\<rparr>"

definition transform16 :: expr where
  "transform16 = BatchNormE 16 (Conv2dE conv16 (ReluE (BatchNormE 16 (Conv2dE conv16 Input))))"

definition gate16 :: "expr \<Rightarrow> expr" where
  "gate16 e =
     ViewE (SigmoidE (LinearE 1 16 (ReluE (LinearE 16 1 (ViewE (AvgPoolE 1 1 e) [1, - 1])))))
       [1, 16, 1, 1]"

section \<open>Evaluation rules\<close>

lemmas init_defs =
  ResidualBlock_init_def BasicBlock_init_def Conv2d_init_def or_default_def
  SE_ResModule_init_def SqueezeExcitationBlock_init_def floordiv_def Linear_init_def
  BottleneckBlock_init_def ResNeXtBlock_init_def

lemmas fwd_defs =
  SE_ResModule_forward_def SE_ResModule_forward_spec_def block_forward_def
  ResidualBlock_forward_def ResNeXtBlock_forward_def truthy_def BasicBlock_forward_def
  BottleneckBlock_forward_def SqueezeExcitationBlock_forward_def Flatten_forward_def

lemmas shape_defs =
  shape_rt_def shape_conv2d_def conv_hw_def conv_out_size_def
  shape_batch_norm_def shape_linear_def shape_adaptive_avg_pool2d_def shape_mul_def
  shape_iadd_def shape_view_def

lemmas trace_defs = traced_rt_def lift1_def lift2_def

section \<open>What the constructors build\<close>

lemma Conv2d_init_groups1:
  "Conv2d_init cin cout k s p (Suc 0) b =
     Inr (Conv2d \<lparr>conv_in = cin, conv_out = cout, conv_kernel = k, conv_stride = s,
                   conv_padding = p, conv_groups = 1, conv_bias = b\<rparr>)"
  by (simp add: Conv2d_init_def)

lemma BasicBlock_init_result:
  "BasicBlock_init cin cout (Some s) None =
     Inr \<lparr>basic_in_channels = cin, basic_out_channels = cout,
          basic_conv1 = [Conv2d \<lparr>conv_in = cin, conv_out = cout, conv_kernel = 3, conv_stride = s,
                                  conv_padding = 1, conv_groups = 1, conv_bias = False\<rparr>,
                         BatchNorm2d cout, ReLU],
          basic_conv2 = [Conv2d \<lparr>conv_in = cout, conv_out = cout, conv_kernel = 3, conv_stride = 1,
                                  conv_padding = 1, conv_groups = 1, conv_bias = False\<rparr>,
                         BatchNorm2d cout]\<rparr>"
  by (simp add: BasicBlock_init_def or_default_def Conv2d_init_groups1)

text \<open>
  \<^verbatim>\<open>ResidualBlock(cin, cout, blk)\<close> never raises: both of its convolutions have one
  group.
\<close>

lemma ResidualBlock_init_result:
  "ResidualBlock_init cin cout blk =
     Inr \<lparr>res_class = ResidualBlock_class, res_in_channels = cin, res_out_channels = cout,
          downsample =
            (if cin \<noteq> cout
             then Some [Conv2d \<lparr>conv_in = cin, conv_out = cout, conv_kernel = 1, conv_stride = 2,
                                conv_padding = 0, conv_groups = 1, conv_bias = False\<rparr>,
                        BatchNorm2d cout]
             else None),
          res_block =
            (case blk of
               None \<Rightarrow>
                 BasicT \<lparr>basic_in_channels = cin, basic_out_channels = cout,
                   basic_conv1 = [Conv2d \<lparr>conv_in = cin, conv_out = cout, conv_kernel = 3,
                                     conv_stride = (if cin \<noteq> cout then 2 else 1),
                                     conv_padding = 1, conv_groups = 1, conv_bias = False\<rparr>,
                                  BatchNorm2d cout, ReLU],
                   basic_conv2 = [Conv2d \<lparr>conv_in = cout, conv_out = cout, conv_kernel = 3,
                                     conv_stride = 1,
                                     conv_padding = 1, conv_groups = 1, conv_bias = False\<rparr>,
                                  BatchNorm2d cout]\<rparr>
             | Some b \<Rightarrow> b)\<rparr>"
  by (cases blk) (simp_all add: ResidualBlock_init_def BasicBlock_init_result Conv2d_init_groups1)

text \<open>
  \<^verbatim>\<open>BottleneckBlock(...)\<close> raises exactly when the group count is 0 or does not divide
  the middle width; the batch normalisation after the first convolution is built over
  \<open>cout\<close> features.
\<close>

lemma BottleneckBlock_init_result:
  "BottleneckBlock_init cin cout stride groups mid =
     (let m = (case mid of None \<Rightarrow> cin div 2 | Some v \<Rightarrow> v); g = or_default 1 groups in
      if g = 0 \<or> m mod g \<noteq> 0 then Inl ValueError
      else Inr \<lparr>bneck_in_channels = cin, bneck_out_channels = cout,
             bneck_conv1 = [Conv2d \<lparr>conv_in = cin, conv_out = m, conv_kernel = 1, conv_stride = 1,
                                     conv_padding = 0, conv_groups = 1, conv_bias = False\<rparr>,
                            BatchNorm2d cout, ReLU],
             bneck_conv2 = [Conv2d \<lparr>conv_in = m, conv_out = m, conv_kernel = 3,
                                     conv_stride = or_default 1 stride,
                                     conv_padding = 1, conv_groups = g, conv_bias = False\<rparr>,
                            BatchNorm2d m, ReLU],
             bneck_conv3 = [Conv2d \<lparr>conv_in = m, conv_out = cout, conv_kernel = 1, conv_stride = 1,
                                     conv_padding = 0, conv_groups = 1, conv_bias = False\<rparr>,
                            BatchNorm2d cout]\<rparr>)"
  by (simp add: BottleneckBlock_init_def Let_def Conv2d_init_groups1)
     (simp add: Conv2d_init_def)

lemma ResNeXtBlock_init_fails_iff:
  "isl (ResNeXtBlock_init cin cout cardinality) \<longleftrightarrow>
     cout = 0 \<or> or_default 32 cardinality = 0 \<or> (cin div 2) mod or_default 32 cardinality \<noteq> 0"
  by (simp add: ResNeXtBlock_init_def floordiv_def BottleneckBlock_init_result
      ResidualBlock_init_result or_default_def Let_def)

lemma se_res16_value:
  "se_res16 =
     Inr \<lparr>se_res_block =
            \<lparr>res_class = ResidualBlock_class, res_in_channels = 16, res_out_channels = 16,
             downsample = None,
             res_block = BasicT \<lparr>basic_in_channels = 16, basic_out_channels = 16,
                                  basic_conv1 = [Conv2d conv16, BatchNorm2d 16, ReLU],
                                  basic_conv2 = [Conv2d conv16, BatchNorm2d 16]\<rparr>\<rparr>,
          se_block = \<lparr>reduced_channel_size = 1,
                      se_seq = [AdaptiveAvgPool2d 1 1, Flatten, Linear 16 1, ReLU, Linear 1 16,
                                Sigmoid]\<rparr>\<rparr>"
  by (simp add: se_res16_def conv16_def init_defs)

text \<open>The class body of \<^verbatim>\<open>backends\<close> runs through and leaves three attributes.\<close>

lemma backends_attrs:
  "\<exists>r s x. backends = Inr [(''resnet'', r), (''se_resnet'', s), (''se_resneXt'', x)]"
  by (simp add: backends_def backends_resnet_def backends_se_resnet_def backends_se_resneXt_def
      conv_stem_def se_stage_def residual_stage_def init_defs)

section \<open>What the forward passes compute\<close>

text \<open>The two \<^verbatim>\<open>forward\<close> methods of lines 95-102 and 115-122 are the same function.\<close>

lemma ResNeXtBlock_forward_eq: "ResNeXtBlock_forward rt self x = ResidualBlock_forward rt self x"
  by (simp add: ResNeXtBlock_forward_def ResidualBlock_forward_def)

text \<open>
  The value of a residual block's forward pass, from the values of its parts: \<open>T\<close> from
  the transform, \<open>r\<close> from the shortcut, \<open>s\<close> from their sum.
\<close>

lemma block_forward_value:
  assumes "transform_forward rt (res_block self) x = Inr T"
    and "(case downsample self of
            None \<Rightarrow> Inr x
          | Some ds \<Rightarrow> Sequential_forward rt ds x) = Inr r"
    and "rt_iadd rt T r = Inr s"
  shows "block_forward rt self x = Inr (rt_relu rt s)"
proof (cases "downsample self")
  case None
  with assms show ?thesis
    by (cases "res_class self")
       (simp_all add: block_forward_def ResidualBlock_forward_def ResNeXtBlock_forward_def
          truthy_def)
next
  case (Some ds)
  with assms show ?thesis
    by (cases "res_class self"; cases ds)
       (simp_all add: block_forward_def ResidualBlock_forward_def ResNeXtBlock_forward_def
          truthy_def)
qed

lemma ResidualBlock_forward_no_downsample:
  "downsample self = None \<Longrightarrow>
   ResidualBlock_forward rt self x =
     (case transform_forward rt (res_block self) x of
        Inl e \<Rightarrow> Inl e
      | Inr out \<Rightarrow>
          (case rt_iadd rt out x of
             Inl e \<Rightarrow> Inl e
           | Inr s \<Rightarrow> Inr (rt_relu rt s)))"
  by (simp add: ResidualBlock_forward_def truthy_def split: sum.split)

text \<open>
  In every runtime, \<open>SE_ResModule_forward\<close> gates and rescales the output of the
  wrapped block's whole forward pass, \<open>relu (T + r)\<close>, and then adds the shortcut \<open>r\<close>
  a second time.
\<close>

lemma SE_ResModule_forward_gates_block_output:
  assumes "transform_forward rt (res_block (se_res_block self)) X = Inr T"
    and "(case downsample (se_res_block self) of
            None \<Rightarrow> Inr X
          | Some ds \<Rightarrow> Sequential_forward rt ds X) = Inr r"
    and "rt_iadd rt T r = Inr s"
    and "SqueezeExcitationBlock_forward rt (se_block self) (rt_relu rt s) = Inr g"
    and "rt_mul rt (rt_relu rt s) g = Inr p"
    and "rt_iadd rt p r = Inr q"
  shows "SE_ResModule_forward rt self X = Inr (rt_relu rt q)"
proof -
  have "block_forward rt (se_res_block self) X = Inr (rt_relu rt s)"
    using assms(1-3) by (rule block_forward_value)
  then show ?thesis
    using assms(2,4-6) by (simp add: SE_ResModule_forward_def)
qed

text \<open>
  A bottleneck whose middle width differs from its output width raises on every input
  that has an element: the first convolution leaves \<open>mid\<close> channels and the batch
  normalisation after it was built for \<open>cout\<close>.
\<close>

lemma BottleneckBlock_forward_raises_when_mid_differs:
  assumes "BottleneckBlock_init cin cout stride groups mid = Inr b"
    and "(case mid of None \<Rightarrow> cin div 2 | Some v \<Rightarrow> v) \<noteq> cout"
    and "prod_list sh \<noteq> 0"
  shows "isl (BottleneckBlock_forward (shape_rt training) b sh)"
proof -
  let ?m = "case mid of None \<Rightarrow> cin div 2 | Some v \<Rightarrow> v"
  let ?c1 = "\<lparr>conv_in = cin, conv_out = ?m, conv_kernel = 1, conv_stride = 1,
              conv_padding = 0, conv_groups = 1, conv_bias = False\<rparr>"
  have conv1: "bneck_conv1 b = [Conv2d ?c1, BatchNorm2d cout, ReLU]"
    using assms(1) by (auto simp add: BottleneckBlock_init_result Let_def split: if_splits)
  have "isl (Sequential_forward (shape_rt training) [Conv2d ?c1, BatchNorm2d cout, ReLU] sh)"
    using assms(2,3)
    by (auto simp add: shape_rt_def shape_conv2d_def conv_hw_def conv_out_size_def
        shape_batch_norm_def split: list.split sum.split)
  then show ?thesis
    by (auto simp add: BottleneckBlock_forward_def conv1 split: sum.split)
qed

section \<open>Shapes through the squeeze-excitation block, the decoder and the se_resnet stack\<close>

lemma SqueezeExcitationBlock_forward_shape:
  assumes "SqueezeExcitationBlock_init (int C) r = Inr se" and "0 < B"
  shows "SqueezeExcitationBlock_forward (shape_rt training) se [B, C, H, W] = Inr [B, C, 1, 1]"
  using assms
  by (auto simp add: SqueezeExcitationBlock_init_def floordiv_def Linear_init_def
      SqueezeExcitationBlock_forward_def Flatten_forward_def shape_defs split: if_splits)

lemma decoder_forward_shape:
  assumes "0 < B"
  shows "\<exists>dec. decoder_init = Inr dec \<and>
           Sequential_forward (shape_rt training) dec [B, 512, H, W] = Inr [B, 1]"
  using assms
  by (simp add: decoder_init_def Linear_init_def Flatten_forward_def shape_defs)

text \<open>
  With the se_resnet stack passed as encoder, the classifier is built and maps a batch
  of \<open>B\<close> images of 224 by 224 to one value per image.
\<close>

lemma object_classifier_init_with_encoder:
  "\<exists>dec. decoder_init = Inr dec \<and>
     object_classifier_init load (Some enc) None = Inr \<lparr>encoder = enc, decoder = dec\<rparr>"
proof -
  obtain r s x
    where attrs: "backends = Inr [(''resnet'', r), (''se_resnet'', s), (''se_resneXt'', x)]"
    using backends_attrs by blast
  show ?thesis
    by (simp add: object_classifier_init_def attrs decoder_init_def Linear_init_def)
qed

lemma object_classifier_forward_shape:
  assumes "backends_se_resnet = Inr enc" and "decoder_init = Inr dec"
  shows "forward (shape_rt training) \<lparr>encoder = enc, decoder = dec\<rparr> [2, 3, 224, 224] = Inr [2, 1]"
proof -
  have "stack_forward (shape_rt training) enc [2, 3, 224, 224] = Inr [2, 512, 14, 14]"
    using assms(1)
    by (auto simp add: backends_se_resnet_def conv_stem_def se_stage_def init_defs
        fwd_defs shape_defs)
  moreover have "Sequential_forward (shape_rt training) dec [2, 512, 14, 14] = Inr [2, 1]"
  proof -
    obtain d where d: "decoder_init = Inr d"
      and fwd: "Sequential_forward (shape_rt training) d [2, 512, 14, 14] = Inr [2, 1]"
      using decoder_forward_shape [where B = 2 and H = 14 and W = 14 and training = training]
      by auto
    from d assms(2) have "d = dec" by (metis sum.inject(2))
    with fwd show ?thesis by simp
  qed
  ultimately show ?thesis
    by (simp add: forward_def encode_def decode_def)
qed

section \<open>The claims\<close>

subsection \<open>C1: the default encoder\<close>

text \<open>
  Claim C1: constructing \<^verbatim>\<open>object_classifier\<close> with no encoder succeeds and takes the
  se_resnet stack of \<^verbatim>\<open>backends\<close> as encoder. On the code, the constructor reads
  \<^verbatim>\<open>backends.encoder_se_resnet\<close> (line 175), a name the class does not define: for
  every decoder file argument, construction without an encoder raises
  \<^verbatim>\<open>AttributeError\<close>.
\<close>

theorem object_classifier_init_default_encoder:
  "object_classifier_init load None decoderFile = Inl AttributeError"
proof -
  obtain r s x
    where attrs: "backends = Inr [(''resnet'', r), (''se_resnet'', s), (''se_resneXt'', x)]"
    using backends_attrs by blast
  show ?thesis
    by (simp add: object_classifier_init_def getattr_def attrs)
qed

subsection \<open>C2: the output shape of se_resnet\<close>

text \<open>
  The claim as stated, an output of shape \<open>(1, 512, 7, 7)\<close>, fails: four of the five
  stages change the width and halve the resolution, the stage from 256 to 256
  channels does not.
\<close>

theorem se_resnet_forward_not_7x7:
  "se_resnet_forward (shape_rt True) [1, 3, 224, 224] \<noteq> Inr [1, 512, 7, 7]"
  by (simp add: se_resnet_forward_def backends_se_resnet_def conv_stem_def se_stage_def init_defs
      fwd_defs shape_defs)

text \<open>
  Claim C2, amended: an input of shape \<open>(1, 3, 224, 224)\<close> through the se_resnet stack
  yields an output of shape \<open>(1, 512, 14, 14)\<close>, in training mode and in evaluation
  mode.
\<close>

theorem se_resnet_forward_shape:
  "se_resnet_forward (shape_rt training) [1, 3, 224, 224] = Inr [1, 512, 14, 14]"
proof -
  have "\<exists>stack. backends_se_resnet = Inr stack \<and>
          stack_forward (shape_rt training) stack [1, 3, 224, 224] = Inr [1, 512, 14, 14]"
    by (simp add: backends_se_resnet_def conv_stem_def se_stage_def init_defs
        fwd_defs shape_defs)
  then obtain stack where built: "backends_se_resnet = Inr stack"
    and shape: "stack_forward (shape_rt training) stack [1, 3, 224, 224] = Inr [1, 512, 14, 14]"
    by blast
  show ?thesis
    unfolding se_resnet_forward_def built using shape by simp
qed

theorem se_resnet_forward_shape_witness:
  "se_resnet_forward (shape_rt False) [1, 3, 224, 224] = Inr [1, 512, 14, 14]"
  by (rule se_resnet_forward_shape)

subsection \<open>C3: the bottleneck's forward pass\<close>

text \<open>
  Claim C3: the forward pass of every \<^verbatim>\<open>BottleneckBlock\<close> normalises the output of
  its first convolution over \<open>mid_channels\<close> features, succeeds, and yields \<open>Cout\<close>
  channels. On the code, \<^verbatim>\<open>BottleneckBlock(64, 128)\<close> has a first convolution
  from 64 to 32 channels followed by \<^verbatim>\<open>BatchNorm2d(128)\<close> (line 63 passes
  \<^verbatim>\<open>out_channels\<close>), and its forward pass raises on an input of shape
  \<open>(1, 64, 8, 8)\<close>; with the normalisation over 32 features it would yield
  \<open>(1, 128, 8, 8)\<close>.
\<close>

theorem BottleneckBlock_forward_raises:
  "\<exists>b c1. BottleneckBlock_init 64 128 None None None = Inr b \<and>
       c1 = Conv2d \<lparr>conv_in = 64, conv_out = 32, conv_kernel = 1, conv_stride = 1,
                     conv_padding = 0, conv_groups = 1, conv_bias = False\<rparr> \<and>
       bneck_conv1 b = [c1, BatchNorm2d 128, ReLU] \<and>
       BottleneckBlock_forward (shape_rt True) b [1, 64, 8, 8] = Inl RuntimeError \<and>
       BottleneckBlock_forward (shape_rt True) (b\<lparr>bneck_conv1 := [c1, BatchNorm2d 32, ReLU]\<rparr>)
         [1, 64, 8, 8] = Inr [1, 128, 8, 8]"
  by (simp add: init_defs fwd_defs shape_defs)

subsection \<open>C4: the transform of a ResNeXtBlock\<close>

text \<open>
  Claim C4: the transform of every \<^verbatim>\<open>ResNeXtBlock(Cin, Cout, cardinality)\<close> is the
  \<^verbatim>\<open>BottleneckBlock\<close> built with \<open>mid_channels = Cin div 2\<close>, \<open>groups = cardinality\<close>
  (32 when not given) and \<open>stride = Cin div Cout\<close>: its three convolutions go from
  \<open>Cin\<close> to \<open>Cin div 2\<close>, from \<open>Cin div 2\<close> to \<open>Cin div 2\<close> with that stride and that
  group count, and from \<open>Cin div 2\<close> to \<open>Cout\<close>. (The block is built unless \<open>Cout\<close>
  is 0 or the group count does not divide \<open>Cin div 2\<close>.)
\<close>

theorem ResNeXtBlock_transform:
  assumes "ResNeXtBlock_init cin cout cardinality = Inr rb"
  shows "\<exists>b. BottleneckBlock_init cin cout (Some (cin div cout))
                (Some (or_default 32 cardinality)) (Some (cin div 2)) = Inr b \<and>
             res_block rb = BottleneckT b \<and>
             bneck_conv1 b =
               [Conv2d \<lparr>conv_in = cin, conv_out = cin div 2, conv_kernel = 1, conv_stride = 1,
                        conv_padding = 0, conv_groups = 1, conv_bias = False\<rparr>,
                BatchNorm2d cout, ReLU] \<and>
             bneck_conv2 b =
               [Conv2d \<lparr>conv_in = cin div 2, conv_out = cin div 2, conv_kernel = 3,
                        conv_stride = cin div cout, conv_padding = 1,
                        conv_groups = or_default 32 cardinality, conv_bias = False\<rparr>,
                BatchNorm2d (cin div 2), ReLU] \<and>
             bneck_conv3 b =
               [Conv2d \<lparr>conv_in = cin div 2, conv_out = cout, conv_kernel = 1, conv_stride = 1,
                        conv_padding = 0, conv_groups = 1, conv_bias = False\<rparr>,
                BatchNorm2d cout] \<and>
             or_default 32 None = (32::nat)"
  using assms
  by (auto simp add: ResNeXtBlock_init_def floordiv_def BottleneckBlock_init_result
      ResidualBlock_init_result or_default_def Let_def split: if_splits)

theorem ResNeXtBlock_transform_witness:
  "\<exists>rb b. ResNeXtBlock_init 64 128 None = Inr rb \<and>
       res_block rb = BottleneckT b \<and>
       bneck_conv2 b =
         [Conv2d \<lparr>conv_in = 32, conv_out = 32, conv_kernel = 3, conv_stride = 0,
                  conv_padding = 1, conv_groups = 32, conv_bias = False\<rparr>,
          BatchNorm2d 32, ReLU]"
proof -
  have "\<not> isl (ResNeXtBlock_init 64 128 None)"
    by (simp add: ResNeXtBlock_init_fails_iff or_default_def)
  then obtain rb where rb: "ResNeXtBlock_init 64 128 None = Inr rb"
    by (cases "ResNeXtBlock_init 64 128 None") auto
  from ResNeXtBlock_transform [OF rb] obtain b
    where "res_block rb = BottleneckT b"
      and "bneck_conv2 b =
             [Conv2d \<lparr>conv_in = 64 div 2, conv_out = 64 div 2, conv_kernel = 3,
                      conv_stride = 64 div 128, conv_padding = 1,
                      conv_groups = or_default 32 None, conv_bias = False\<rparr>,
              BatchNorm2d (64 div 2), ReLU]"
    by blast
  then show ?thesis
    using rb by (simp add: or_default_def)
qed

subsection \<open>C5: the downsample path of a ResidualBlock\<close>

text \<open>
  Claim C5: \<^verbatim>\<open>ResidualBlock(Cin, Cout)\<close>, with the default transform or a given one,
  is always built; it has a downsample path exactly when \<open>Cin \<noteq> Cout\<close>, and that path
  is a 1x1 convolution of stride 2 from \<open>Cin\<close> to \<open>Cout\<close> channels followed by a batch
  normalisation over \<open>Cout\<close> features; when \<open>Cin = Cout\<close> the forward pass adds the
  input itself to the output of the transform.
\<close>

theorem ResidualBlock_downsample_iff:
  "\<exists>rb. ResidualBlock_init cin cout blk = Inr rb \<and>
        (downsample rb \<noteq> None) = (cin \<noteq> cout) \<and>
        (cin \<noteq> cout \<longrightarrow>
           downsample rb =
             Some [Conv2d \<lparr>conv_in = cin, conv_out = cout, conv_kernel = 1, conv_stride = 2,
                           conv_padding = 0, conv_groups = 1, conv_bias = False\<rparr>,
                   BatchNorm2d cout]) \<and>
        (cin = cout \<longrightarrow>
           ResidualBlock_forward rt rb x =
             (case transform_forward rt (res_block rb) x of
                Inl e \<Rightarrow> Inl e
              | Inr out \<Rightarrow>
                  (case rt_iadd rt out x of
                     Inl e \<Rightarrow> Inl e
                   | Inr s \<Rightarrow> Inr (rt_relu rt s))))"
  by (simp add: ResidualBlock_init_result ResidualBlock_forward_no_downsample)

theorem ResidualBlock_downsample_iff_witness:
  "(\<exists>rb. ResidualBlock_init 3 64 None = Inr rb \<and>
         downsample rb =
           Some [Conv2d \<lparr>conv_in = 3, conv_out = 64, conv_kernel = 1, conv_stride = 2,
                         conv_padding = 0, conv_groups = 1, conv_bias = False\<rparr>,
                 BatchNorm2d 64]) \<and>
   (\<exists>rb. ResidualBlock_init 256 256 None = Inr rb \<and>
         downsample rb = None \<and>
         ResidualBlock_forward (shape_rt True) rb [1, 256, 28, 28] = Inr [1, 256, 28, 28])"
proof -
  have a: "\<exists>rb. ResidualBlock_init 3 64 None = Inr rb \<and>
         downsample rb =
           Some [Conv2d \<lparr>conv_in = 3, conv_out = 64, conv_kernel = 1, conv_stride = 2,
                         conv_padding = 0, conv_groups = 1, conv_bias = False\<rparr>,
                 BatchNorm2d 64]"
    using ResidualBlock_downsample_iff [of 3 64 None "shape_rt True" "[1, 3, 8, 8]"] by auto
  obtain rb where rb: "ResidualBlock_init 256 256 None = Inr rb"
    and none: "downsample rb = None"
    and fwd: "ResidualBlock_forward (shape_rt True) rb [1, 256, 28, 28] =
      (case transform_forward (shape_rt True) (res_block rb) [1, 256, 28, 28] of
         Inl e \<Rightarrow> Inl e
       | Inr out \<Rightarrow>
           (case rt_iadd (shape_rt True) out [1, 256, 28, 28] of
              Inl e \<Rightarrow> Inl e
            | Inr s \<Rightarrow> Inr (rt_relu (shape_rt True) s)))"
    using ResidualBlock_downsample_iff [of 256 256 None "shape_rt True" "[1, 256, 28, 28]"]
    by auto
  have "res_block rb =
          BasicT \<lparr>basic_in_channels = 256, basic_out_channels = 256,
            basic_conv1 = [Conv2d \<lparr>conv_in = 256, conv_out = 256, conv_kernel = 3,
                              conv_stride = 1, conv_padding = 1, conv_groups = 1,
                              conv_bias = False\<rparr>,
                           BatchNorm2d 256, ReLU],
            basic_conv2 = [Conv2d \<lparr>conv_in = 256, conv_out = 256, conv_kernel = 3,
                              conv_stride = 1, conv_padding = 1, conv_groups = 1,
                              conv_bias = False\<rparr>,
                           BatchNorm2d 256]\<rparr>"
    using rb by (auto simp add: ResidualBlock_init_result)
  then have t: "transform_forward (shape_rt True) (res_block rb) [1, 256, 28, 28] =
      Inr [1, 256, 28, 28]"
    by (simp add: BasicBlock_forward_def shape_defs)
  have "ResidualBlock_forward (shape_rt True) rb [1, 256, 28, 28] = Inr [1, 256, 28, 28]"
    unfolding fwd t by (simp add: shape_defs)
  with a rb none show ?thesis by blast
qed

subsection \<open>C6: the forward pass of a ResidualBlock\<close>

text \<open>
  Claim C6: for every residual block (of class \<^verbatim>\<open>ResidualBlock\<close> or \<^verbatim>\<open>ResNeXtBlock\<close>)
  and every input \<open>x\<close>, in every runtime, \<^verbatim>\<open>forward(x)\<close> is
  \<open>relu (transform x + residual)\<close>, where \<open>residual\<close> is \<open>downsample x\<close> when the block
  has a downsample path and \<open>x\<close> otherwise; an exception raised by the transform, by
  the downsample path or by the addition, in this order, is the outcome of the call.
  The truth-value test of \<^verbatim>\<open>if self.downsample:\<close> makes no difference: an empty
  \<^verbatim>\<open>nn.Sequential\<close>, the one value it treats as absent, returns its input.
\<close>

theorem block_forward_formula:
  "block_forward rt self x =
     (case transform_forward rt (res_block self) x of
        Inl e \<Rightarrow> Inl e
      | Inr out \<Rightarrow>
          (case (case downsample self of
                   None \<Rightarrow> Inr x
                 | Some ds \<Rightarrow> Sequential_forward rt ds x) of
             Inl e \<Rightarrow> Inl e
           | Inr residual \<Rightarrow>
               (case rt_iadd rt out residual of
                  Inl e \<Rightarrow> Inl e
                | Inr s \<Rightarrow> Inr (rt_relu rt s))))"
proof (cases "downsample self")
  case None
  then show ?thesis
    by (cases "res_class self")
       (simp_all add: block_forward_def ResidualBlock_forward_def ResNeXtBlock_forward_def
          truthy_def split: sum.split)
next
  case (Some ds)
  show ?thesis
  proof (cases "ds = []")
    case True
    with Some show ?thesis
      by (cases "res_class self")
         (simp_all add: block_forward_def ResidualBlock_forward_def ResNeXtBlock_forward_def
            truthy_def split: sum.split)
  next
    case False
    with Some show ?thesis
      by (cases "res_class self")
         (simp_all add: block_forward_def ResidualBlock_forward_def ResNeXtBlock_forward_def
            truthy_def split: sum.split)
  qed
qed

theorem block_forward_formula_witness:
  "\<exists>rb. ResidualBlock_init 3 64 None = Inr rb \<and>
        block_forward (traced_rt True) rb ([1, 3, 8, 8], Input) =
          Inr ([1, 64, 4, 4],
               ReluE (AddE
                 (BatchNormE 64
                   (Conv2dE \<lparr>conv_in = 64, conv_out = 64, conv_kernel = 3, conv_stride = 1,
                             conv_padding = 1, conv_groups = 1, conv_bias = False\<rparr>
                     (ReluE (BatchNormE 64
                       (Conv2dE \<lparr>conv_in = 3, conv_out = 64, conv_kernel = 3, conv_stride = 2,
                                 conv_padding = 1, conv_groups = 1, conv_bias = False\<rparr>
                          Input)))))
                 (BatchNormE 64
                   (Conv2dE \<lparr>conv_in = 3, conv_out = 64, conv_kernel = 1, conv_stride = 2,
                             conv_padding = 0, conv_groups = 1, conv_bias = False\<rparr>
                      Input))))"
  by (simp add: ResidualBlock_init_result block_forward_formula BasicBlock_forward_def
      trace_defs shape_defs)

subsection \<open>C7: the forward pass of an SE_ResModule\<close>

text \<open>
  Claim C7: \<^verbatim>\<open>SE_ResModule.forward(X)\<close> is \<open>relu (T * gate T + residual)\<close> with \<open>T\<close> the
  output of the wrapped block's transform. On the code, line 133 calls the wrapped
  block's own \<^verbatim>\<open>forward\<close>, which has already added the shortcut and applied ReLU: for
  \<^verbatim>\<open>SE_ResModule(ResidualBlock(16, 16))\<close> on an input of shape \<open>(1, 16, 4, 4)\<close> the
  trace of the code is \<open>relu (R * gate R + X)\<close> with \<open>R = relu (T + X)\<close>, which is not
  the trace \<open>relu (T * gate T + X)\<close> of the specification's formula.
\<close>

theorem SE_ResModule_forward_applies_shortcut_twice:
  "\<exists>m. se_res16 = Inr m \<and>
       SE_ResModule_forward (traced_rt True) m ([1, 16, 4, 4], Input) =
         Inr ([1, 16, 4, 4],
              ReluE (AddE (MulE (ReluE (AddE transform16 Input))
                                (gate16 (ReluE (AddE transform16 Input))))
                          Input)) \<and>
       SE_ResModule_forward_spec (traced_rt True) m ([1, 16, 4, 4], Input) =
         Inr ([1, 16, 4, 4],
              ReluE (AddE (MulE transform16 (gate16 transform16)) Input)) \<and>
       SE_ResModule_forward (traced_rt True) m ([1, 16, 4, 4], Input) \<noteq>
         SE_ResModule_forward_spec (traced_rt True) m ([1, 16, 4, 4], Input)"
  by (simp add: se_res16_value fwd_defs trace_defs shape_defs transform16_def gate16_def conv16_def)

subsection \<open>C9: a squeeze-excitation block of width zero\<close>




end
